theory Spec2Isabelle
  imports
    Complex_Main
    "HOL-Library.Multiset"
    "HOL-Library.Option_ord"
    "HOL-Library.List_Lexorder"
begin

section \<open>The store: tables of server.js\<close>

text \<open>
  The three tables created in \<open>db.serialize\<close> (server.js, lines 61-102). A DATETIME
  column holds the text \<open>YYYY-MM-DD HH:MM:SS\<close>; it is modelled by the number of whole
  seconds it denotes, so that the text comparison of two well-formed timestamps is the
  comparison of these integers. Column \<open>id\<close> of each table is written with the table's
  prefix.

  The evaluation instant of a query is given by two numbers: \<open>now\<close>, the whole second
  that \<open>datetime('now')\<close> shows, and \<open>ms\<close>, the milliseconds of the same instant beyond
  that second, which \<open>julianday('now')\<close> still sees (\<open>0 \<le> ms < 1000\<close> on a real clock).
\<close>

record post =
  p_id :: int
  p_text :: string
  p_mood :: string
  p_likes :: int
  p_reposts :: int
  p_image :: "string option"
  p_timestamp :: int

record reaction =
  rx_id :: int
  rx_post_id :: int
  rx_type :: string
  rx_timestamp :: int

record reply =
  rp_id :: int
  rp_post_id :: int
  rp_text :: string
  rp_image :: "string option"
  rp_timestamp :: int

text \<open>
  The database handle. The three \<open>_seq\<close> fields are the AUTOINCREMENT counters
  (the largest rowid ever handed out per table). \<open>foreign_keys\<close> is the connection's
  \<open>PRAGMA foreign_keys\<close>: the schema declares \<open>FOREIGN KEY (post_id) REFERENCES posts(id)\<close>
  on reactions and replies, and SQLite enforces such a clause only while the pragma is on.
\<close>

record db =
  posts :: "post list"
  reactions :: "reaction list"
  replies :: "reply list"
  posts_seq :: int
  reactions_seq :: int
  replies_seq :: int
  foreign_keys :: bool

text \<open>
  \<open>id INTEGER PRIMARY KEY AUTOINCREMENT\<close> makes \<open>id\<close> the rowid of the posts table: the
  rows are kept, and scanned, in ascending \<open>id\<close>, and no two rows share one. The list
  \<open>posts\<close> is the table in that order.
\<close>

definition rowid_order :: "db \<Rightarrow> bool" where
  "rowid_order d = sorted_wrt (<) (map p_id (posts d))"

text \<open>
  \<open>new sqlite3.Database('./confessions.db')\<close> on a fresh file: empty tables, and the
  pragma at SQLite's default (off); server.js never issues \<open>PRAGMA foreign_keys = ON\<close>.
\<close>

definition open_db :: db where
  "open_db = \<lparr>posts = [], reactions = [], replies = [],
     posts_seq = 0, reactions_seq = 0, replies_seq = 0, foreign_keys = False\<rparr>"

section \<open>GET /api/posts\<close>

subsection \<open>SQL values and aggregates\<close>

text \<open>
  A numeric SQL value is \<open>Some q\<close>, NULL is \<open>None\<close>. Reals are exact rationals here:
  rounding of IEEE doubles is not modelled. SQLite's \<open>/\<close> yields NULL on a zero divisor.
  With the order of \<open>HOL-Library.Option_ord\<close> NULL is below every number, which is where
  SQLite's ORDER BY places it.
\<close>

type_synonym sqlnum = "rat option"

definition sql_div :: "rat \<Rightarrow> rat \<Rightarrow> sqlnum" where
  "sql_div a b = (if b = 0 then None else Some (a / b))"

text \<open>\<open>SELECT post_id, COUNT(*) ... GROUP BY post_id\<close> over the post_id column of the
  selected rows: one row per post_id that occurs, with its number of occurrences.\<close>

definition count_by_post :: "int list \<Rightarrow> (int \<times> int) list" where
  "count_by_post ks = map (\<lambda>k. (k, int (count_list ks k))) (remdups ks)"

text \<open>\<open>LEFT JOIN (...) j ON j.post_id = posts.id\<close> followed by \<open>COALESCE(j.count, 0)\<close>:
  the joined count when the subquery has a row for the post, NULL otherwise, and NULL
  replaced by 0.\<close>

definition left_join_count :: "(int \<times> int) list \<Rightarrow> int \<Rightarrow> int option" where
  "left_join_count sub pid = map_of sub pid"

definition coalesce0 :: "int option \<Rightarrow> int" where
  "coalesce0 v = (case v of None \<Rightarrow> 0 | Some n \<Rightarrow> n)"

definition reactions_of_type :: "string \<Rightarrow> db \<Rightarrow> reaction list" where
  "reactions_of_type t d = filter (\<lambda>x. rx_type x = t) (reactions d)"

subsection \<open>The rows of baseQuery\<close>

text \<open>One result row: \<open>posts.*\<close> and the six COALESCEd counts (lines 171-177). The
  column \<open>happy_count\<close> counts the reactions of type \<open>haha\<close> (line 182).\<close>

record row =
  row_post :: post
  reaction_count :: int
  reply_count :: int
  love_count :: int
  happy_count :: int
  angry_count :: int
  sad_count :: int

definition select_row :: "db \<Rightarrow> post \<Rightarrow> row" where
  "select_row d p =
     \<lparr>row_post = p,
      reaction_count =
        coalesce0 (left_join_count (count_by_post (map rx_post_id (reactions d))) (p_id p)),
      reply_count =
        coalesce0 (left_join_count (count_by_post (map rp_post_id (replies d))) (p_id p)),
      love_count =
        coalesce0 (left_join_count
          (count_by_post (map rx_post_id (reactions_of_type ''love'' d))) (p_id p)),
      happy_count =
        coalesce0 (left_join_count
          (count_by_post (map rx_post_id (reactions_of_type ''haha'' d))) (p_id p)),
      angry_count =
        coalesce0 (left_join_count
          (count_by_post (map rx_post_id (reactions_of_type ''angry'' d))) (p_id p)),
      sad_count =
        coalesce0 (left_join_count
          (count_by_post (map rx_post_id (reactions_of_type ''sad'' d))) (p_id p))\<rparr>"

subsection \<open>The switch on sortType\<close>

text \<open>\<open>req.query.sort || 'recent'\<close>: an absent or empty parameter becomes \<open>recent\<close>.\<close>

definition sortType :: "string option \<Rightarrow> string" where
  "sortType q = (case q of None \<Rightarrow> ''recent'' | Some s \<Rightarrow> (if s = [] then ''recent'' else s))"

text \<open>\<open>timeFilter\<close>: \<open>posts.timestamp >= datetime('now', '-2 hours')\<close> for rising,
  \<open>'-6 hours'\<close> for hot, empty otherwise.\<close>

definition timeFilter :: "string \<Rightarrow> int \<Rightarrow> post \<Rightarrow> bool" where
  "timeFilter st now p =
     (if st = ''rising'' then p_timestamp p \<ge> now - 2 * 3600
      else if st = ''hot'' then p_timestamp p \<ge> now - 6 * 3600
      else True)"

text \<open>The sum that four of the ORDER BY clauses share:
  \<open>COALESCE(r.reaction_count, 0) + posts.reposts + posts.likes + COALESCE(rep.reply_count, 0)\<close>.\<close>

definition engagement :: "row \<Rightarrow> int" where
  "engagement r = reaction_count r + p_reposts (row_post r) + p_likes (row_post r) + reply_count r"

text \<open>\<open>julianday\<close> of the instant \<open>ms\<close> milliseconds after second \<open>t\<close>: days since noon,
  24 November 4714 BC, counted in milliseconds; the epoch of the second count is day
  2440587.5. A stored timestamp has no milliseconds.\<close>

definition julianday :: "int \<Rightarrow> int \<Rightarrow> rat" where
  "julianday t ms = (of_int t * 1000 + of_int ms) / 86400000 + 24405875 / 10"

text \<open>The CASE expression of the controversial order (lines 144-148); the bare names
  \<open>love_count\<close>, \<open>happy_count\<close>, \<open>angry_count\<close>, \<open>sad_count\<close> are the result columns.\<close>

definition controversy :: "row \<Rightarrow> rat" where
  "controversy r =
     (if love_count r + happy_count r > 0
      then of_int (angry_count r + sad_count r) * 1 / of_int (love_count r + happy_count r)
      else 0)"

definition quality :: "row \<Rightarrow> rat" where
  "quality r =
     of_int (p_likes (row_post r)) + of_int (p_reposts (row_post r)) * 2
       + of_int (reaction_count r) * (3 / 2) + of_int (reply_count r) * (1 / 2)"

definition hot_score :: "int \<Rightarrow> int \<Rightarrow> row \<Rightarrow> sqlnum" where
  "hot_score now ms r =
     sql_div (of_int (engagement r) * 1000)
       (julianday now ms - julianday (p_timestamp (row_post r)) 0)"

text \<open>\<open>order\<close>: the terms of the ORDER BY clause chosen by the switch, evaluated on a
  row at the instant \<open>now\<close>, \<open>ms\<close>, leftmost first. Every term of every clause is DESC.\<close>

definition order :: "string \<Rightarrow> int \<Rightarrow> int \<Rightarrow> row \<Rightarrow> sqlnum list" where
  "order st now ms r =
     (if st = ''new'' then [Some (of_int (p_timestamp (row_post r)))]
      else if st = ''rising'' then
        [Some (of_int (engagement r)), Some (of_int (p_timestamp (row_post r)))]
      else if st = ''controversial'' then
        [Some (controversy r), Some (of_int (engagement r))]
      else if st = ''top'' then [Some (of_int (engagement r))]
      else if st = ''best'' then [Some (quality r)]
      else if st = ''hot'' then [hot_score now ms r]
      else [Some (of_int (p_timestamp (row_post r)))])"

subsection \<open>The query and its results\<close>

text \<open>The rows selected before ordering: one per post that passes the time filter, in
  table order.\<close>

definition selected :: "string \<Rightarrow> int \<Rightarrow> db \<Rightarrow> row list" where
  "selected st now d = map (select_row d) (filter (timeFilter st now) (posts d))"

text \<open>\<open>ORDER BY ... DESC\<close>: a row may stand before another when its terms are not
  below the other's, compared leftmost first.\<close>

definition may_precede :: "string \<Rightarrow> int \<Rightarrow> int \<Rightarrow> row \<Rightarrow> row \<Rightarrow> bool" where
  "may_precede st now ms a b = (order st now ms a \<ge> order st now ms b)"

text \<open>
  What the text of \<open>baseQuery\<close> asks of a result: the selected rows, each once, in an
  order that respects the ORDER BY terms. The clause says nothing about rows that are
  equal on every term, so this is a relation between the store and the lists the text
  admits.
\<close>

definition baseQuery :: "string \<Rightarrow> int \<Rightarrow> int \<Rightarrow> db \<Rightarrow> row list \<Rightarrow> bool" where
  "baseQuery st now ms d out =
     (mset out = mset (selected st now d) \<and> sorted_wrt (may_precede st now ms) out)"

text \<open>
  What \<open>db.all(baseQuery, ...)\<close> hands to its callback. SQLite scans \<open>posts\<close>, the
  outer table of the LEFT JOINs, in rowid order and feeds the rows to its sorter, which
  keeps rows that are equal on every term in the order of their arrival: each row is
  inserted into the descending list behind the rows that are not below it.
\<close>

fun insert_desc :: "string \<Rightarrow> int \<Rightarrow> int \<Rightarrow> row \<Rightarrow> row list \<Rightarrow> row list" where
  "insert_desc st now ms r [] = [r]"
| "insert_desc st now ms r (x # xs) =
     (if order st now ms x \<ge> order st now ms r then x # insert_desc st now ms r xs
      else r # x # xs)"

definition run_baseQuery :: "string \<Rightarrow> int \<Rightarrow> int \<Rightarrow> db \<Rightarrow> row list" where
  "run_baseQuery st now ms d =
     foldl (\<lambda>acc r. insert_desc st now ms r acc) [] (selected st now d)"

text \<open>\<open>a\<close> occurs in the list and \<open>b\<close> occurs after its first occurrence.\<close>

fun ranks_before :: "'a list \<Rightarrow> 'a \<Rightarrow> 'a \<Rightarrow> bool" where
  "ranks_before [] a b = False"
| "ranks_before (x # xs) a b = (if x = a then b \<in> set xs else ranks_before xs a b)"

subsection \<open>getReactionsForPosts and the response\<close>

text \<open>\<open>SELECT post_id, type, COUNT(*) ... WHERE post_id IN (ids) GROUP BY post_id, type\<close>.\<close>

definition reaction_groups :: "db \<Rightarrow> int list \<Rightarrow> ((int \<times> string) \<times> int) list" where
  "reaction_groups d ids =
     (let ks = map (\<lambda>x. (rx_post_id x, rx_type x))
                 (filter (\<lambda>x. rx_post_id x \<in> set ids) (reactions d))
      in map (\<lambda>k. (k, int (count_list ks k))) (remdups ks))"

text \<open>The \<open>forEach\<close> of lines 115-118: \<open>if (!map[r.post_id]) map[r.post_id] = {};
  map[r.post_id][r.type] = r.count\<close>.\<close>

definition add_group ::
  "(int \<times> string) \<times> int \<Rightarrow> (int \<rightharpoonup> (string \<rightharpoonup> int)) \<Rightarrow> (int \<rightharpoonup> (string \<rightharpoonup> int))" where
  "add_group g m =
     (case g of ((pid, t), c) \<Rightarrow>
        (let inner = (case m pid of None \<Rightarrow> Map.empty | Some tm \<Rightarrow> tm)
         in m(pid \<mapsto> inner(t \<mapsto> c))))"

definition getReactionsForPosts :: "db \<Rightarrow> int list \<Rightarrow> (int \<rightharpoonup> (string \<rightharpoonup> int))" where
  "getReactionsForPosts d ids =
     (if length ids = 0 then Map.empty else fold add_group (reaction_groups d ids) Map.empty)"

text \<open>\<open>rows.map(row => ({ ...row, reactions: reactionsMap[row.id] || {} }))\<close>.\<close>

definition respond :: "db \<Rightarrow> row list \<Rightarrow> (row \<times> (string \<rightharpoonup> int)) list" where
  "respond d rows =
     (let reactionsMap = getReactionsForPosts d (map (\<lambda>r. p_id (row_post r)) rows)
      in map (\<lambda>r. (r, case reactionsMap (p_id (row_post r)) of
                          None \<Rightarrow> Map.empty | Some tm \<Rightarrow> tm)) rows)"

section \<open>The write routes\<close>

text \<open>
  A route answers with an error status and message, or with its JSON body, and leaves
  the store in a new state. Failures of the database driver itself (the \<open>err\<close> argument
  of a callback, other than a constraint the schema declares) are not modelled. The
  \<open>:id\<close> path segment of a route is taken as the integer it spells.
\<close>

datatype http_error = BadRequest string | NotFound string | ServerError string

text \<open>AUTOINCREMENT: one more than the largest rowid the table has ever held.\<close>

definition next_rowid :: "int \<Rightarrow> int list \<Rightarrow> int" where
  "next_rowid seq ids = max seq (fold max ids 0) + 1"

subsection \<open>POST /api/posts\<close>

definition MAX_LENGTH :: nat where
  "MAX_LENGTH = 280"

text \<open>\<open>String.prototype.trim\<close> on the code units a \<open>char\<close> can hold: tab, line feed,
  vertical tab, form feed, carriage return, space and no-break space are stripped from
  both ends.\<close>

definition is_space :: "char \<Rightarrow> bool" where
  "is_space c = (of_char c \<in> {9, 10, 11, 12, 13, 32, 160 :: nat})"

definition trim :: "string \<Rightarrow> string" where
  "trim s = rev (dropWhile is_space (rev (dropWhile is_space s)))"

definition validMoods :: "string list" where
  "validMoods = [''none'', ''love'', ''happy'', ''sad'', ''angry'', ''anxious'', ''excited'']"

text \<open>\<open>validMoods.includes(mood) ? mood : 'none'\<close>; an absent mood is \<open>undefined\<close>, which
  the list does not include.\<close>

definition safeMood :: "string option \<Rightarrow> string" where
  "safeMood mood =
     (case mood of None \<Rightarrow> ''none''
      | Some m \<Rightarrow> (if m \<in> set validMoods then m else ''none''))"

text \<open>\<open>req.file ? `/uploads/${req.file.filename}` : null\<close>.\<close>

definition imagePath :: "string option \<Rightarrow> string option" where
  "imagePath file = (case file of None \<Rightarrow> None | Some f \<Rightarrow> Some (''/uploads/'' @ f))"

record post_json =
  j_id :: int
  j_text :: string
  j_mood :: string
  j_image :: "string option"
  j_likes :: int
  j_reposts :: int
  j_reactions :: "string \<rightharpoonup> int"
  j_reply_count :: int

text \<open>The arguments are \<open>req.body.text\<close>, \<open>req.body.mood\<close>, the stored name of the uploaded
  file if there is one, and the time of the insert (CURRENT_TIMESTAMP).\<close>

definition create_post ::
  "string option \<Rightarrow> string option \<Rightarrow> string option \<Rightarrow> int \<Rightarrow> db
     \<Rightarrow> (http_error + post_json) \<times> db" where
  "create_post text mood file now d =
     (case text of
        None \<Rightarrow> (Inl (BadRequest ''Post cannot be empty''), d)
      | Some t \<Rightarrow>
          if t = [] \<or> trim t = [] then (Inl (BadRequest ''Post cannot be empty''), d)
          else if length (trim t) > MAX_LENGTH then (Inl (BadRequest ''Max 280 characters''), d)
          else
            (let lastID = next_rowid (posts_seq d) (map p_id (posts d))
             in (Inr \<lparr>j_id = lastID, j_text = trim t, j_mood = safeMood mood,
                       j_image = imagePath file, j_likes = 0, j_reposts = 0,
                       j_reactions = Map.empty, j_reply_count = 0\<rparr>,
                 d\<lparr>posts := posts d @
                      [\<lparr>p_id = lastID, p_text = trim t, p_mood = safeMood mood, p_likes = 0,
                        p_reposts = 0, p_image = imagePath file, p_timestamp = now\<rparr>],
                    posts_seq := lastID\<rparr>)))"

subsection \<open>POST /api/posts/:id/like and /repost\<close>

definition like :: "int \<Rightarrow> db \<Rightarrow> (http_error + int) \<times> db" where
  "like pid d =
     (let d' = d\<lparr>posts := map (\<lambda>p. if p_id p = pid then p\<lparr>p_likes := p_likes p + 1\<rparr> else p)
                              (posts d)\<rparr>
      in case filter (\<lambda>p. p_id p = pid) (posts d') of
           [] \<Rightarrow> (Inl (NotFound ''Not found''), d')
         | p # _ \<Rightarrow> (Inr (p_likes p), d'))"

definition repost :: "int \<Rightarrow> db \<Rightarrow> (http_error + int) \<times> db" where
  "repost pid d =
     (let d' = d\<lparr>posts := map (\<lambda>p. if p_id p = pid then p\<lparr>p_reposts := p_reposts p + 1\<rparr> else p)
                              (posts d)\<rparr>
      in case filter (\<lambda>p. p_id p = pid) (posts d') of
           [] \<Rightarrow> (Inl (NotFound ''Not found''), d')
         | p # _ \<Rightarrow> (Inr (p_reposts p), d'))"

subsection \<open>POST /api/posts/:id/react\<close>

definition validTypes :: "string list" where
  "validTypes = [''love'', ''haha'', ''sad'', ''angry'', ''fire'']"

text \<open>The declared foreign key rejects a row whose post_id names no post, when the
  connection enforces foreign keys.\<close>

definition fk_violation :: "db \<Rightarrow> int \<Rightarrow> bool" where
  "fk_violation d pid = (foreign_keys d \<and> pid \<notin> set (map p_id (posts d)))"

text \<open>\<open>SELECT type, COUNT(*) FROM reactions WHERE post_id = ? GROUP BY type\<close> and the
  \<open>forEach\<close> that fills the \<open>reactions\<close> object.\<close>

definition reaction_counts :: "db \<Rightarrow> int \<Rightarrow> (string \<rightharpoonup> int)" where
  "reaction_counts d pid =
     (let ts = map rx_type (filter (\<lambda>x. rx_post_id x = pid) (reactions d));
          rows = map (\<lambda>t. (t, int (count_list ts t))) (remdups ts)
      in fold (\<lambda>r m. m(fst r \<mapsto> snd r)) rows Map.empty)"

definition react :: "int \<Rightarrow> string option \<Rightarrow> int \<Rightarrow> db \<Rightarrow> (http_error + (string \<rightharpoonup> int)) \<times> db" where
  "react pid type now d =
     (case type of
        None \<Rightarrow> (Inl (BadRequest ''Invalid reaction''), d)
      | Some t \<Rightarrow>
          if t \<notin> set validTypes then (Inl (BadRequest ''Invalid reaction''), d)
          else if fk_violation d pid then (Inl (ServerError ''FOREIGN KEY constraint failed''), d)
          else
            (let lastID = next_rowid (reactions_seq d) (map rx_id (reactions d));
                 d' = d\<lparr>reactions := reactions d @
                          [\<lparr>rx_id = lastID, rx_post_id = pid, rx_type = t, rx_timestamp = now\<rparr>],
                        reactions_seq := lastID\<rparr>
             in (Inr (reaction_counts d' pid), d')))"

subsection \<open>POST /api/posts/:id/reply\<close>

record reply_json =
  y_id :: int
  y_post_id :: int
  y_text :: string
  y_image :: "string option"

definition reply_to ::
  "int \<Rightarrow> string option \<Rightarrow> string option \<Rightarrow> int \<Rightarrow> db \<Rightarrow> (http_error + reply_json) \<times> db" where
  "reply_to pid text file now d =
     (case text of
        None \<Rightarrow> (Inl (BadRequest ''Reply cannot be empty''), d)
      | Some t \<Rightarrow>
          if t = [] \<or> trim t = [] then (Inl (BadRequest ''Reply cannot be empty''), d)
          else if fk_violation d pid then (Inl (ServerError ''FOREIGN KEY constraint failed''), d)
          else
            (let lastID = next_rowid (replies_seq d) (map rp_id (replies d))
             in (Inr \<lparr>y_id = lastID, y_post_id = pid, y_text = trim t,
                       y_image = imagePath file\<rparr>,
                 d\<lparr>replies := replies d @
                      [\<lparr>rp_id = lastID, rp_post_id = pid, rp_text = trim t,
                        rp_image = imagePath file, rp_timestamp = now\<rparr>],
                    replies_seq := lastID\<rparr>)))"

subsection \<open>DELETE /api/posts/:id\<close>

text \<open>
  \<open>postId\<close> is \<open>None\<close> for a path segment that \<open>parseInt\<close> maps to NaN, and \<open>Some n\<close> for
  the numeral of \<open>n\<close>. The three DELETE statements run in the order of the nested
  callbacks; \<open>this.changes\<close> of the last one is the number of posts rows it removed.
\<close>

definition delete_replies :: "int \<Rightarrow> db \<Rightarrow> db" where
  "delete_replies pid d = d\<lparr>replies := filter (\<lambda>r. rp_post_id r \<noteq> pid) (replies d)\<rparr>"

definition delete_reactions :: "int \<Rightarrow> db \<Rightarrow> db" where
  "delete_reactions pid d = d\<lparr>reactions := filter (\<lambda>x. rx_post_id x \<noteq> pid) (reactions d)\<rparr>"

definition delete_post_row :: "int \<Rightarrow> db \<Rightarrow> nat \<times> db" where
  "delete_post_row pid d =
     (length (filter (\<lambda>p. p_id p = pid) (posts d)),
      d\<lparr>posts := filter (\<lambda>p. p_id p \<noteq> pid) (posts d)\<rparr>)"

definition delete_post :: "int option \<Rightarrow> db \<Rightarrow> (http_error + string \<times> int) \<times> db" where
  "delete_post postId d =
     (case postId of
        None \<Rightarrow> (Inl (BadRequest ''Invalid post ID''), d)
      | Some pid \<Rightarrow>
          (let d1 = delete_replies pid d;
               d2 = delete_reactions pid d1;
               (changes, d3) = delete_post_row pid d2
           in if changes = 0 then (Inl (NotFound ''Post not found''), d3)
              else (Inr (''Post deleted successfully'', pid), d3)))"

section \<open>The words of the specification\<close>

text \<open>The numbers the specification speaks of: the reaction events of a post, those of
  one type, and its reply events, counted directly in the tables.\<close>

definition reaction_events :: "db \<Rightarrow> int \<Rightarrow> int" where
  "reaction_events d pid = int (length (filter (\<lambda>x. rx_post_id x = pid) (reactions d)))"

definition typed_reaction_events :: "db \<Rightarrow> int \<Rightarrow> string \<Rightarrow> int" where
  "typed_reaction_events d pid t =
     int (length (filter (\<lambda>x. rx_post_id x = pid \<and> rx_type x = t) (reactions d)))"

definition reply_events :: "db \<Rightarrow> int \<Rightarrow> int" where
  "reply_events d pid = int (length (filter (\<lambda>x. rp_post_id x = pid) (replies d)))"

text \<open>The nested object that \<open>getReactionsForPosts\<close> builds, read at a post and a type:
  absent when the post has no entry or its entry has no such type.\<close>

definition flat :: "(int \<rightharpoonup> (string \<rightharpoonup> int)) \<Rightarrow> int \<times> string \<Rightarrow> int option" where
  "flat m k = (case m (fst k) of None \<Rightarrow> None | Some tm \<Rightarrow> tm (snd k))"

text \<open>The comparator the specification describes: the terms of the strategy, descending,
  and on a tie of all of them the post identifier, ascending. \<open>spec_precedes a b\<close> says
  that \<open>a\<close> must stand before \<open>b\<close>.\<close>

definition spec_precedes :: "string \<Rightarrow> int \<Rightarrow> int \<Rightarrow> row \<Rightarrow> row \<Rightarrow> bool" where
  "spec_precedes st now ms a b =
     (order st now ms b < order st now ms a \<or>
      (order st now ms a = order st now ms b \<and> p_id (row_post a) < p_id (row_post b)))"

section \<open>Sample stores\<close>

definition sample_post :: "int \<Rightarrow> int \<Rightarrow> int \<Rightarrow> int \<Rightarrow> post" where
  "sample_post i l r t =
     \<lparr>p_id = i, p_text = ''x'', p_mood = ''none'', p_likes = l, p_reposts = r,
      p_image = None, p_timestamp = t\<rparr>"

definition sample_reaction :: "int \<Rightarrow> int \<Rightarrow> string \<Rightarrow> reaction" where
  "sample_reaction i pid t = \<lparr>rx_id = i, rx_post_id = pid, rx_type = t, rx_timestamp = 0\<rparr>"

definition store_of :: "post list \<Rightarrow> reaction list \<Rightarrow> db" where
  "store_of ps rs =
     \<lparr>posts = ps, reactions = rs, replies = [], posts_seq = int (length ps),
      reactions_seq = int (length rs), replies_seq = 0, foreign_keys = False\<rparr>"

text \<open>Three posts with one like each, with the timestamps 0, 3600 and 7200.\<close>

definition hot_store :: db where
  "hot_store = store_of [sample_post 1 1 0 0, sample_post 2 1 0 3600, sample_post 3 1 0 7200] []"


text \<open>Post 1 has three angry and two sad reactions; post 2 has the same and one love.\<close>

definition controversial_store :: db where
  "controversial_store =
     store_of [sample_post 1 0 0 0, sample_post 2 0 0 0]
       [sample_reaction 1 1 ''angry'', sample_reaction 2 1 ''angry'', sample_reaction 3 1 ''angry'',
        sample_reaction 4 1 ''sad'', sample_reaction 5 1 ''sad'',
        sample_reaction 6 2 ''angry'', sample_reaction 7 2 ''angry'', sample_reaction 8 2 ''angry'',
        sample_reaction 9 2 ''sad'', sample_reaction 10 2 ''sad'', sample_reaction 11 2 ''love'']"

text \<open>One post, created at second 0; evaluated seven hours later.\<close>

definition window_store :: db where
  "window_store = store_of [sample_post 1 0 0 0] []"

text \<open>Post 1 has ten likes, post 2 five reposts, post 3 twelve likes.\<close>

definition best_store :: db where
  "best_store = store_of [sample_post 1 10 0 0, sample_post 2 0 5 0, sample_post 3 12 0 0] []"

text \<open>Post 1 has one angry and one love reaction; post 2 has the same and one fire.\<close>

definition ratio_tie_store :: db where
  "ratio_tie_store =
     store_of [sample_post 1 0 0 0, sample_post 2 0 0 0]
       [sample_reaction 1 1 ''angry'', sample_reaction 2 1 ''love'',
        sample_reaction 3 2 ''angry'', sample_reaction 4 2 ''love'', sample_reaction 5 2 ''fire'']"

text \<open>Post 1 has three love and two angry reactions; post 2 has none.\<close>

definition metrics_store :: db where
  "metrics_store =
     store_of [sample_post 1 0 0 0, sample_post 2 0 0 0]
       [sample_reaction 1 1 ''love'', sample_reaction 2 1 ''love'', sample_reaction 3 1 ''love'',
        sample_reaction 4 1 ''angry'', sample_reaction 5 1 ''angry'']"

text \<open>The freshly opened store after a reaction and a reply to post 999, which does not
  exist.\<close>

definition dangling_store :: db where
  "dangling_store =
     snd (reply_to 999 (Some ''hello'') None 0 (snd (react 999 (Some ''love'') 0 open_db)))"

section \<open>Aggregation lemmas\<close>

lemma count_list_map_filter:
  "count_list (map f xs) k = length (filter (\<lambda>x. f x = k) xs)"
  by (induction xs) auto

lemma map_of_counts:
  "map_of (map (\<lambda>k. (k, g k)) xs) k = (if k \<in> set xs then Some (g k) else None)"
  by (induction xs) auto

lemma joined_count:
  "coalesce0 (left_join_count (count_by_post ks) k) = int (count_list ks k)"
  by (simp add: coalesce0_def left_join_count_def count_by_post_def map_of_counts count_list_0_iff)

lemma select_row_counts:
  "row_post (select_row d p) = p"
  "reaction_count (select_row d p) = reaction_events d (p_id p)"
  "reply_count (select_row d p) = reply_events d (p_id p)"
  "love_count (select_row d p) = typed_reaction_events d (p_id p) ''love''"
  "happy_count (select_row d p) = typed_reaction_events d (p_id p) ''haha''"
  "angry_count (select_row d p) = typed_reaction_events d (p_id p) ''angry''"
  "sad_count (select_row d p) = typed_reaction_events d (p_id p) ''sad''"
  by (simp_all add: select_row_def joined_count count_list_map_filter reactions_of_type_def
      reaction_events_def typed_reaction_events_def reply_events_def conj_commute)

section \<open>Ordering lemmas\<close>

lemma mset_insert_desc: "mset (insert_desc st now ms r xs) = add_mset r (mset xs)"
  by (induction xs) auto

lemma set_insert_desc: "set (insert_desc st now ms r xs) = insert r (set xs)"
  by (induction xs) auto

lemma sorted_insert_desc:
  "sorted_wrt (may_precede st now ms) xs
     \<Longrightarrow> sorted_wrt (may_precede st now ms) (insert_desc st now ms r xs)"
  by (induction xs) (auto simp: set_insert_desc may_precede_def)

lemma foldl_insert_desc:
  "sorted_wrt (may_precede st now ms) acc \<Longrightarrow>
   mset (foldl (\<lambda>acc r. insert_desc st now ms r acc) acc rs) = mset rs + mset acc \<and>
   sorted_wrt (may_precede st now ms) (foldl (\<lambda>acc r. insert_desc st now ms r acc) acc rs)"
  by (induction rs arbitrary: acc) (simp_all add: mset_insert_desc sorted_insert_desc)

lemma run_baseQuery_result: "baseQuery st now ms d (run_baseQuery st now ms d)"
  using foldl_insert_desc [of st now ms "[]" "selected st now d"]
  by (simp add: baseQuery_def run_baseQuery_def)

lemma sorted_wrt_ranks_before:
  "sorted_wrt R out \<Longrightarrow> a \<in> set out \<Longrightarrow> b \<in> set out \<Longrightarrow> \<not> R b a \<Longrightarrow> a \<noteq> b
     \<Longrightarrow> ranks_before out a b"
  by (induction out) auto

lemma result_key_sequence:
  assumes "baseQuery st now ms d out1" "baseQuery st now ms d out2"
  shows "map (order st now ms) out1 = map (order st now ms) out2"
proof -
  have s: "sorted (rev (map (order st now ms) out))" if "baseQuery st now ms d out" for out
    using that
    by (simp add: baseQuery_def may_precede_def [abs_def] sorted_wrt_rev sorted_wrt_map
        flip: rev_map)
  have "mset (rev (map (order st now ms) out1)) = mset (rev (map (order st now ms) out2))"
    using assms by (simp add: baseQuery_def)
  then have "rev (map (order st now ms) out1) = rev (map (order st now ms) out2)"
    using s [OF assms(1)] s [OF assms(2)] by (metis properties_for_sort)
  then show ?thesis by simp
qed

section \<open>Evaluation of the sample stores\<close>

lemma sample_fields:
  "p_id (sample_post i l r t) = i" "p_likes (sample_post i l r t) = l"
  "p_reposts (sample_post i l r t) = r" "p_timestamp (sample_post i l r t) = t"
  "rx_post_id (sample_reaction i pid ty) = pid" "rx_type (sample_reaction i pid ty) = ty"
  "posts (store_of ps rs) = ps" "reactions (store_of ps rs) = rs" "replies (store_of ps rs) = []"
  by (simp_all add: sample_post_def sample_reaction_def store_of_def)

section \<open>Results of the query\<close>

lemma selected_posts:
  "map row_post (selected st now d) = filter (timeFilter st now) (posts d)"
  by (simp add: selected_def comp_def select_row_counts)

lemma result_posts:
  assumes "baseQuery st now ms d out"
  shows "mset (map row_post out) = mset (filter (timeFilter st now) (posts d))"
proof -
  have "mset (map row_post out) = image_mset row_post (mset out)" by simp
  also have "\<dots> = image_mset row_post (mset (selected st now d))"
    using assms by (simp add: baseQuery_def)
  also have "\<dots> = mset (map row_post (selected st now d))" by simp
  finally show ?thesis by (simp add: selected_posts)
qed

lemma result_ranks_before:
  assumes "baseQuery st now ms d out" "a \<in> set out" "b \<in> set out"
    and "order st now ms b < order st now ms a"
  shows "ranks_before out a b"
  using assms sorted_wrt_ranks_before [of "may_precede st now ms" out a b]
  by (auto simp: baseQuery_def may_precede_def not_le)



section \<open>The order of ties\<close>





lemma insert_desc_spec_sorted:
  "sorted_wrt (spec_precedes st now ms) xs
     \<Longrightarrow> \<forall>x \<in> set xs. p_id (row_post x) < p_id (row_post r)
     \<Longrightarrow> sorted_wrt (spec_precedes st now ms) (insert_desc st now ms r xs)"
proof (induction xs)
  case Nil
  then show ?case by simp
next
  case (Cons x xs)
  show ?case
  proof (cases "order st now ms x \<ge> order st now ms r")
    case True
    then have "spec_precedes st now ms x r"
      using Cons.prems(2) by (auto simp: spec_precedes_def)
    with True Cons show ?thesis by (auto simp: set_insert_desc)
  next
    case False
    then have lt: "order st now ms x < order st now ms r" by simp
    have "spec_precedes st now ms r y" if "y \<in> set (x # xs)" for y
    proof -
      have "order st now ms y \<le> order st now ms x"
        using that Cons.prems(1) by (auto simp: spec_precedes_def)
      with lt show ?thesis by (auto simp: spec_precedes_def)
    qed
    with False Cons.prems(1) show ?thesis by auto
  qed
qed

lemma foldl_insert_desc_spec:
  "sorted_wrt (spec_precedes st now ms) acc
     \<Longrightarrow> sorted_wrt (<) (map (\<lambda>r. p_id (row_post r)) rs)
     \<Longrightarrow> \<forall>x \<in> set acc. \<forall>r \<in> set rs. p_id (row_post x) < p_id (row_post r)
     \<Longrightarrow> sorted_wrt (spec_precedes st now ms) (foldl (\<lambda>acc r. insert_desc st now ms r acc) acc rs)"
proof (induction rs arbitrary: acc)
  case Nil
  then show ?case by simp
next
  case (Cons r rs)
  have 1: "sorted_wrt (spec_precedes st now ms) (insert_desc st now ms r acc)"
    using Cons.prems by (intro insert_desc_spec_sorted) auto
  have 2: "\<forall>x \<in> set (insert_desc st now ms r acc). \<forall>r' \<in> set rs.
             p_id (row_post x) < p_id (row_post r')"
    using Cons.prems by (auto simp: set_insert_desc)
  show ?case
    using Cons.IH [OF 1 _ 2] Cons.prems(2) by simp
qed

lemma selected_ids_ascending:
  assumes "rowid_order d"
  shows "sorted_wrt (<) (map (\<lambda>r. p_id (row_post r)) (selected st now d))"
proof -
  have "map (\<lambda>r. p_id (row_post r)) (selected st now d) =
        map p_id (filter (timeFilter st now) (posts d))"
    by (simp add: selected_def comp_def select_row_counts)
  moreover have "sorted_wrt (<) (map p_id (filter (timeFilter st now) (posts d)))"
    using assms unfolding rowid_order_def
    by (simp add: sorted_wrt_map sorted_wrt_filter)
  ultimately show ?thesis by simp
qed

lemma run_baseQuery_spec_sorted:
  "rowid_order d \<Longrightarrow> sorted_wrt (spec_precedes st now ms) (run_baseQuery st now ms d)"
  unfolding run_baseQuery_def
  by (intro foldl_insert_desc_spec selected_ids_ascending) auto


lemma run_baseQuery_ties_ascending:
  assumes "rowid_order d"
    and "a \<in> set (run_baseQuery st now ms d)" "b \<in> set (run_baseQuery st now ms d)"
    and "order st now ms a = order st now ms b" "p_id (row_post a) < p_id (row_post b)"
  shows "ranks_before (run_baseQuery st now ms d) a b"
proof (rule sorted_wrt_ranks_before [OF run_baseQuery_spec_sorted [OF assms(1)]])
  show "a \<in> set (run_baseQuery st now ms d)" "b \<in> set (run_baseQuery st now ms d)"
    using assms by simp_all
  show "\<not> spec_precedes st now ms b a" using assms by (auto simp: spec_precedes_def)
  show "a \<noteq> b" using assms by auto
qed

section \<open>The posts table stays in rowid order\<close>

lemma fold_max_start: "(m::int) \<le> fold max ids m"
  by (induction ids arbitrary: m) (auto intro: order_trans [OF max.cobounded2])

lemma fold_max_member: "x \<in> set ids \<Longrightarrow> (x::int) \<le> fold max ids m"
proof (induction ids arbitrary: m)
  case Nil
  then show ?case by simp
next
  case (Cons y ys)
  show ?case
  proof (cases "x = y")
    case True
    have "x \<le> max y m" using True by simp
    also have "\<dots> \<le> fold max ys (max y m)" by (rule fold_max_start)
    finally show ?thesis by simp
  next
    case False
    with Cons show ?thesis by simp
  qed
qed

lemma next_rowid_fresh: "x \<in> set ids \<Longrightarrow> x < next_rowid seq ids"
  using fold_max_member [of x ids 0] by (simp add: next_rowid_def)

lemma rowid_order_open_db: "rowid_order open_db"
  by (simp add: rowid_order_def open_db_def)

lemma rowid_order_create_post:
  "rowid_order d \<Longrightarrow> rowid_order (snd (create_post text mood file now d))"
  by (auto simp: rowid_order_def create_post_def Let_def sorted_wrt_append next_rowid_fresh
      split: option.splits)

lemma rowid_order_like: "rowid_order d \<Longrightarrow> rowid_order (snd (like pid d))"
  by (auto simp: rowid_order_def like_def Let_def comp_def if_distrib [of p_id]
      split: list.splits cong: if_cong)

lemma rowid_order_repost: "rowid_order d \<Longrightarrow> rowid_order (snd (repost pid d))"
  by (auto simp: rowid_order_def repost_def Let_def comp_def if_distrib [of p_id]
      split: list.splits cong: if_cong)

lemma rowid_order_react: "rowid_order d \<Longrightarrow> rowid_order (snd (react pid type now d))"
  by (auto simp: rowid_order_def react_def Let_def split: option.splits)

lemma rowid_order_reply_to: "rowid_order d \<Longrightarrow> rowid_order (snd (reply_to pid text file now d))"
  by (auto simp: rowid_order_def reply_to_def Let_def split: option.splits)

lemma rowid_order_delete_post: "rowid_order d \<Longrightarrow> rowid_order (snd (delete_post postId d))"
  by (auto simp: rowid_order_def delete_post_def delete_post_row_def delete_reactions_def
      delete_replies_def Let_def sorted_wrt_map sorted_wrt_filter split: option.splits)

lemma rowid_order_store_of:
  "rowid_order (store_of ps rs) = sorted_wrt (<) (map p_id ps)"
  by (simp add: rowid_order_def sample_fields)

section \<open>The hot order\<close>

lemma hot_store_order:
  "run_baseQuery ''hot'' 3600 500 hot_store =
     [select_row hot_store (sample_post 2 1 0 3600), select_row hot_store (sample_post 1 1 0 0),
      select_row hot_store (sample_post 3 1 0 7200)]"
  "run_baseQuery ''hot'' 3600 0 hot_store =
     [select_row hot_store (sample_post 1 1 0 0), select_row hot_store (sample_post 3 1 0 7200),
      select_row hot_store (sample_post 2 1 0 3600)]"
  by (simp_all add: run_baseQuery_def selected_def timeFilter_def order_def hot_score_def
      sql_div_def julianday_def engagement_def select_row_counts sample_fields hot_store_def
      reaction_events_def reply_events_def)



section \<open>The comparators\<close>





section \<open>The controversial order\<close>

lemma controversial_counts:
  "typed_reaction_events controversial_store 1 ''love'' = 0"
  "typed_reaction_events controversial_store 1 ''haha'' = 0"
  "typed_reaction_events controversial_store 1 ''angry'' = 3"
  "typed_reaction_events controversial_store 1 ''sad'' = 2"
  "typed_reaction_events controversial_store 2 ''love'' = 1"
  "typed_reaction_events controversial_store 2 ''haha'' = 0"
  "typed_reaction_events controversial_store 2 ''angry'' = 3"
  "typed_reaction_events controversial_store 2 ''sad'' = 2"
  "reaction_events controversial_store 1 = 5"
  "reaction_events controversial_store 2 = 6"
  "reply_events controversial_store i = 0"
  by (simp_all add: typed_reaction_events_def reaction_events_def reply_events_def
      controversial_store_def sample_fields)

lemma controversial_selected:
  "selected ''controversial'' now controversial_store =
     [select_row controversial_store (sample_post 1 0 0 0),
      select_row controversial_store (sample_post 2 0 0 0)]"
  by (simp add: selected_def controversial_store_def sample_fields timeFilter_def)

lemma ratio_tie_counts:
  "typed_reaction_events ratio_tie_store 1 ''love'' = 1"
  "typed_reaction_events ratio_tie_store 1 ''haha'' = 0"
  "typed_reaction_events ratio_tie_store 1 ''angry'' = 1"
  "typed_reaction_events ratio_tie_store 1 ''sad'' = 0"
  "typed_reaction_events ratio_tie_store 2 ''love'' = 1"
  "typed_reaction_events ratio_tie_store 2 ''haha'' = 0"
  "typed_reaction_events ratio_tie_store 2 ''angry'' = 1"
  "typed_reaction_events ratio_tie_store 2 ''sad'' = 0"
  "typed_reaction_events ratio_tie_store 2 ''fire'' = 1"
  "reaction_events ratio_tie_store 1 = 2"
  "reaction_events ratio_tie_store 2 = 3"
  "reply_events ratio_tie_store i = 0"
  by (simp_all add: typed_reaction_events_def reaction_events_def reply_events_def
      ratio_tie_store_def sample_fields)

lemma ratio_tie_selected:
  "selected ''controversial'' now ratio_tie_store =
     [select_row ratio_tie_store (sample_post 1 0 0 0),
      select_row ratio_tie_store (sample_post 2 0 0 0)]"
  by (simp add: selected_def ratio_tie_store_def sample_fields timeFilter_def)

text \<open>
  Claim C3. The first ORDER BY term of \<open>controversial\<close> is (angry + sad) / (love + haha)
  over the reaction events of the post when love + haha is positive, and exactly 0 when
  it is zero, whatever the numerator; reactions of type fire enter neither sum. The second
  term is the engagement, the sum of the post's reaction events, reposts, likes and reply
  events. The rows handed to the callback are a result of the query, and in every result
  a row with the larger ratio, or with the same ratio and the larger engagement, stands
  before the other.
\<close>

theorem controversial_order:
  "controversy (select_row d p) =
     (if typed_reaction_events d (p_id p) ''love'' + typed_reaction_events d (p_id p) ''haha'' = 0
      then 0
      else of_int (typed_reaction_events d (p_id p) ''angry''
                   + typed_reaction_events d (p_id p) ''sad'')
           / of_int (typed_reaction_events d (p_id p) ''love''
                     + typed_reaction_events d (p_id p) ''haha'')) \<and>
   engagement (select_row d p) =
     reaction_events d (p_id p) + p_reposts p + p_likes p + reply_events d (p_id p) \<and>
   order ''controversial'' now ms a = [Some (controversy a), Some (of_int (engagement a))] \<and>
   baseQuery ''controversial'' now ms d (run_baseQuery ''controversial'' now ms d) \<and>
   (baseQuery ''controversial'' now ms d out \<and> a \<in> set out \<and> b \<in> set out \<and>
      (controversy b < controversy a \<or>
       (controversy b = controversy a \<and> engagement b < engagement a))
    \<longrightarrow> ranks_before out a b)"
proof (intro conjI impI)
  have nonneg: "0 \<le> typed_reaction_events d (p_id p) ''love'' + typed_reaction_events d (p_id p) ''haha''"
    by (simp add: typed_reaction_events_def)
  then show "controversy (select_row d p) =
     (if typed_reaction_events d (p_id p) ''love'' + typed_reaction_events d (p_id p) ''haha'' = 0
      then 0
      else of_int (typed_reaction_events d (p_id p) ''angry''
                   + typed_reaction_events d (p_id p) ''sad'')
           / of_int (typed_reaction_events d (p_id p) ''love''
                     + typed_reaction_events d (p_id p) ''haha''))"
    unfolding controversy_def select_row_counts by (auto simp: less_le)
  show "engagement (select_row d p) =
     reaction_events d (p_id p) + p_reposts p + p_likes p + reply_events d (p_id p)"
    by (simp add: engagement_def select_row_counts)
  show "order ''controversial'' now ms a = [Some (controversy a), Some (of_int (engagement a))]"
    by (simp add: order_def)
  show "baseQuery ''controversial'' now ms d (run_baseQuery ''controversial'' now ms d)"
    by (rule run_baseQuery_result)
  assume h: "baseQuery ''controversial'' now ms d out \<and> a \<in> set out \<and> b \<in> set out \<and>
      (controversy b < controversy a \<or>
       (controversy b = controversy a \<and> engagement b < engagement a))"
  then have "order ''controversial'' now ms b < order ''controversial'' now ms a"
    by (auto simp: order_def)
  with h show "ranks_before out a b"
    using result_ranks_before by blast
qed

text \<open>
  The examples of claim C3. In \<open>controversial_store\<close> post 1 (angry 3, sad 2, no love,
  no haha) has ratio 0, post 2 (the same and one love) has ratio 5, and post 2 comes out
  first. In \<open>ratio_tie_store\<close> both posts have ratio 1 (the fire reaction of post 2 does
  not enter it), the engagements are 2 and 3, and post 2 comes out first.
\<close>

theorem controversial_order_witness:
  "controversy (select_row controversial_store (sample_post 1 0 0 0)) = 0 \<and>
   controversy (select_row controversial_store (sample_post 2 0 0 0)) = 5 \<and>
   run_baseQuery ''controversial'' 0 0 controversial_store =
     [select_row controversial_store (sample_post 2 0 0 0),
      select_row controversial_store (sample_post 1 0 0 0)] \<and>
   ranks_before (run_baseQuery ''controversial'' 0 0 controversial_store)
     (select_row controversial_store (sample_post 2 0 0 0))
     (select_row controversial_store (sample_post 1 0 0 0)) \<and>
   controversy (select_row ratio_tie_store (sample_post 1 0 0 0)) = 1 \<and>
   controversy (select_row ratio_tie_store (sample_post 2 0 0 0)) = 1 \<and>
   engagement (select_row ratio_tie_store (sample_post 1 0 0 0)) = 2 \<and>
   engagement (select_row ratio_tie_store (sample_post 2 0 0 0)) = 3 \<and>
   run_baseQuery ''controversial'' 0 0 ratio_tie_store =
     [select_row ratio_tie_store (sample_post 2 0 0 0),
      select_row ratio_tie_store (sample_post 1 0 0 0)] \<and>
   ranks_before (run_baseQuery ''controversial'' 0 0 ratio_tie_store)
     (select_row ratio_tie_store (sample_post 2 0 0 0))
     (select_row ratio_tie_store (sample_post 1 0 0 0))"
proof -
  let ?A = "select_row controversial_store (sample_post 1 0 0 0)"
  let ?B = "select_row controversial_store (sample_post 2 0 0 0)"
  let ?C = "select_row ratio_tie_store (sample_post 1 0 0 0)"
  let ?D = "select_row ratio_tie_store (sample_post 2 0 0 0)"
  note tA = controversial_order [of controversial_store "sample_post 1 0 0 0" 0 0 ?B
      "run_baseQuery ''controversial'' 0 0 controversial_store" ?A]
  note tB = controversial_order [of controversial_store "sample_post 2 0 0 0"]
  note tC = controversial_order [of ratio_tie_store "sample_post 1 0 0 0" 0 0 ?D
      "run_baseQuery ''controversial'' 0 0 ratio_tie_store" ?C]
  note tD = controversial_order [of ratio_tie_store "sample_post 2 0 0 0"]
  have cA: "controversy ?A = 0"
    using tA by (simp add: sample_fields controversial_counts)
  have cB: "controversy ?B = 5"
    using tB by (simp add: sample_fields controversial_counts)
  have cC: "controversy ?C = 1" and eC: "engagement ?C = 2"
    using tC by (simp_all add: sample_fields ratio_tie_counts)
  have cD: "controversy ?D = 1" and eD: "engagement ?D = 3"
    using tD by (simp_all add: sample_fields ratio_tie_counts)
  have r1: "run_baseQuery ''controversial'' 0 0 controversial_store = [?B, ?A]"
    by (simp add: run_baseQuery_def controversial_selected order_def cA cB)
  have r2: "run_baseQuery ''controversial'' 0 0 ratio_tie_store = [?D, ?C]"
    by (simp add: run_baseQuery_def ratio_tie_selected order_def cC cD eC eD)
  have m1: "?B \<in> set (run_baseQuery ''controversial'' 0 0 controversial_store)"
    "?A \<in> set (run_baseQuery ''controversial'' 0 0 controversial_store)"
    by (simp_all add: r1)
  have m2: "?D \<in> set (run_baseQuery ''controversial'' 0 0 ratio_tie_store)"
    "?C \<in> set (run_baseQuery ''controversial'' 0 0 ratio_tie_store)"
    by (simp_all add: r2)
  have lt1: "controversy ?A < controversy ?B" by (simp add: cA cB)
  have lt2: "controversy ?C = controversy ?D \<and> engagement ?C < engagement ?D"
    by (simp add: cC cD eC eD)
  have b1: "ranks_before (run_baseQuery ''controversial'' 0 0 controversial_store) ?B ?A"
    using tA m1 lt1 by blast
  have b2: "ranks_before (run_baseQuery ''controversial'' 0 0 ratio_tie_store) ?D ?C"
    using tC m2 lt2 by blast
  show ?thesis
    apply (intro conjI)
    apply (rule cA)
    apply (rule cB)
    apply (rule r1)
    apply (rule b1)
    apply (rule cC)
    apply (rule cD)
    apply (rule eC)
    apply (rule eD)
    apply (rule r2)
    apply (rule b2)
    done
qed

section \<open>The time windows\<close>

text \<open>
  Claim C4. The time filter is part of the WHERE clause, so it removes posts before any
  ordering: the posts of a \<open>hot\<close> result are exactly the posts whose age at evaluation
  time is at most 6 hours, those of a \<open>rising\<close> result exactly the posts of age at most
  2 hours, and a \<open>new\<close> or \<open>trending\<close> result holds every post of the store, whatever
  its age.
\<close>

theorem window_filters_before_scoring:
  "(baseQuery ''hot'' now ms d out \<longrightarrow>
      mset (map row_post out) = mset (filter (\<lambda>p. now - p_timestamp p \<le> 6 * 3600) (posts d))) \<and>
   (baseQuery ''rising'' now ms d out \<longrightarrow>
      mset (map row_post out) = mset (filter (\<lambda>p. now - p_timestamp p \<le> 2 * 3600) (posts d))) \<and>
   (baseQuery ''new'' now ms d out \<longrightarrow> mset (map row_post out) = mset (posts d)) \<and>
   (baseQuery ''trending'' now ms d out \<longrightarrow> mset (map row_post out) = mset (posts d))"
proof -
  have hot: "timeFilter ''hot'' now = (\<lambda>p. now - p_timestamp p \<le> 6 * 3600)"
    by (rule ext) (simp add: timeFilter_def, linarith)
  have rising: "timeFilter ''rising'' now = (\<lambda>p. now - p_timestamp p \<le> 2 * 3600)"
    by (rule ext) (simp add: timeFilter_def, linarith)
  have new: "timeFilter ''new'' now = (\<lambda>p. True)"
    by (rule ext) (simp add: timeFilter_def)
  have trending: "timeFilter ''trending'' now = (\<lambda>p. True)"
    by (rule ext) (simp add: timeFilter_def)
  show ?thesis
    using result_posts [of "''hot''" now ms d out] result_posts [of "''rising''" now ms d out]
      result_posts [of "''new''" now ms d out] result_posts [of "''trending''" now ms d out]
    by (simp add: hot rising new trending)
qed

text \<open>The example of claim C4: a post created 7 hours before the evaluation time is in no
  \<open>hot\<close> (or \<open>rising\<close>) result and in the \<open>new\<close> and \<open>trending\<close> results.\<close>

theorem window_filters_before_scoring_witness:
  "baseQuery ''hot'' (7 * 3600) 0 window_store [] \<and>
   baseQuery ''rising'' (7 * 3600) 0 window_store [] \<and>
   baseQuery ''new'' (7 * 3600) 0 window_store [select_row window_store (sample_post 1 0 0 0)] \<and>
   baseQuery ''trending'' (7 * 3600) 0 window_store [select_row window_store (sample_post 1 0 0 0)] \<and>
   7 * 3600 - p_timestamp (sample_post 1 0 0 0) = 7 * 3600 \<and>
   mset (map row_post ([] :: row list)) =
     mset (filter (\<lambda>p. 7 * 3600 - p_timestamp p \<le> 6 * 3600) (posts window_store)) \<and>
   mset (map row_post [select_row window_store (sample_post 1 0 0 0)]) = mset (posts window_store)"
proof -
  have h: "baseQuery ''hot'' (7 * 3600) 0 window_store []"
    by (simp add: baseQuery_def selected_def window_store_def sample_fields timeFilter_def)
  have r: "baseQuery ''rising'' (7 * 3600) 0 window_store []"
    by (simp add: baseQuery_def selected_def window_store_def sample_fields timeFilter_def)
  have n: "baseQuery ''new'' (7 * 3600) 0 window_store [select_row window_store (sample_post 1 0 0 0)]"
    by (simp add: baseQuery_def selected_def window_store_def sample_fields timeFilter_def)
  have t: "baseQuery ''trending'' (7 * 3600) 0 window_store [select_row window_store (sample_post 1 0 0 0)]"
    by (simp add: baseQuery_def selected_def window_store_def sample_fields timeFilter_def)
  have a: "7 * 3600 - p_timestamp (sample_post 1 0 0 0) = 7 * 3600"
    by (simp add: sample_fields)
  show ?thesis
    using h r n t a
      window_filters_before_scoring [of "7 * 3600" 0 window_store "[]"]
      window_filters_before_scoring [of "7 * 3600" 0 window_store
        "[select_row window_store (sample_post 1 0 0 0)]"]
    by blast
qed

section \<open>The default branch of the switch\<close>

lemma default_branch:
  assumes "st \<notin> {''new'', ''rising'', ''controversial'', ''top'', ''best'', ''hot''}"
  shows "order st now ms = order ''new'' now ms" and "timeFilter st now = timeFilter ''new'' now"
  using assms by (auto simp: order_def timeFilter_def fun_eq_iff)

lemma insert_desc_cong:
  "order st now ms = order st' now ms \<Longrightarrow> insert_desc st now ms r xs = insert_desc st' now ms r xs"
  by (induction xs) auto

lemma default_query:
  assumes "st \<notin> {''new'', ''rising'', ''controversial'', ''top'', ''best'', ''hot''}"
  shows "baseQuery st now ms d out = baseQuery ''new'' now ms d out"
    and "run_baseQuery st now ms d = run_baseQuery ''new'' now ms d"
proof -
  have o: "order st now ms = order ''new'' now ms" and t: "timeFilter st now = timeFilter ''new'' now"
    using default_branch [OF assms] by auto
  have m: "may_precede st now ms = may_precede ''new'' now ms"
    by (simp add: may_precede_def fun_eq_iff o)
  have s: "selected st now d = selected ''new'' now d"
    by (simp add: selected_def t)
  show "baseQuery st now ms d out = baseQuery ''new'' now ms d out"
    by (simp add: baseQuery_def m s)
  have "(\<lambda>acc r. insert_desc st now ms r acc) = (\<lambda>acc r. insert_desc ''new'' now ms r acc)"
    by (intro ext insert_desc_cong o)
  then show "run_baseQuery st now ms d = run_baseQuery ''new'' now ms d"
    by (simp add: run_baseQuery_def s)
qed

lemma sortType_default:
  assumes "q \<notin> {Some ''new'', Some ''rising'', Some ''controversial'', Some ''top'',
                 Some ''best'', Some ''hot''}"
  shows "sortType q \<notin> {''new'', ''rising'', ''controversial'', ''top'', ''best'', ''hot''}"
  using assms by (cases q) (auto simp: sortType_def)

text \<open>
  Claim C5. For every value of the \<open>sort\<close> parameter, present or absent, the query has
  a result: the switch has a default branch and no branch raises. A parameter that is
  absent, empty or none of \<open>new\<close>, \<open>rising\<close>, \<open>controversial\<close>, \<open>top\<close>, \<open>best\<close>, \<open>hot\<close>
  selects the clause \<open>posts.timestamp DESC\<close> with no time filter, which is the clause
  of \<open>new\<close>: the query has the same results, and the same evaluation gives the same
  response.
\<close>

theorem unknown_sort_falls_back:
  "baseQuery (sortType q) now ms d (run_baseQuery (sortType q) now ms d) \<and>
   (q \<notin> {Some ''new'', Some ''rising'', Some ''controversial'', Some ''top'',
           Some ''best'', Some ''hot''} \<longrightarrow>
      baseQuery (sortType q) now ms d out = baseQuery ''new'' now ms d out \<and>
      run_baseQuery (sortType q) now ms d = run_baseQuery ''new'' now ms d \<and>
      respond d (run_baseQuery (sortType q) now ms d) = respond d (run_baseQuery ''new'' now ms d))"
  using run_baseQuery_result [of "sortType q" now ms d] default_query [OF sortType_default, of q]
  by auto

text \<open>The example of claim C5: \<open>banana\<close> and an absent parameter order the three posts of
  \<open>hot_store\<close> as \<open>new\<close> does, latest first.\<close>

theorem unknown_sort_falls_back_witness:
  "baseQuery (sortType (Some ''banana'')) 7200 0 hot_store
     (run_baseQuery (sortType (Some ''banana'')) 7200 0 hot_store) \<and>
   run_baseQuery (sortType (Some ''banana'')) 7200 0 hot_store = run_baseQuery ''new'' 7200 0 hot_store \<and>
   run_baseQuery (sortType None) 7200 0 hot_store = run_baseQuery ''new'' 7200 0 hot_store \<and>
   run_baseQuery ''new'' 7200 0 hot_store =
     [select_row hot_store (sample_post 3 1 0 7200), select_row hot_store (sample_post 2 1 0 3600),
      select_row hot_store (sample_post 1 1 0 0)]"
proof -
  have e: "run_baseQuery ''new'' 7200 0 hot_store =
     [select_row hot_store (sample_post 3 1 0 7200), select_row hot_store (sample_post 2 1 0 3600),
      select_row hot_store (sample_post 1 1 0 0)]"
    by (simp add: run_baseQuery_def selected_def hot_store_def sample_fields timeFilter_def
        order_def select_row_counts)
  have b: "Some ''banana'' \<notin> {Some ''new'', Some ''rising'', Some ''controversial'', Some ''top'',
           Some ''best'', Some ''hot''}"
    by simp
  have n: "None \<notin> {Some ''new'', Some ''rising'', Some ''controversial'', Some ''top'',
           Some ''best'', Some ''hot''}"
    by simp
  show ?thesis
    using e b n unknown_sort_falls_back [of "Some ''banana''" 7200 0 hot_store "[]"]
      unknown_sort_falls_back [of None 7200 0 hot_store "[]"]
    by metis
qed

section \<open>The best order\<close>

lemma best_selected:
  "selected ''best'' now best_store =
     [select_row best_store (sample_post 1 10 0 0), select_row best_store (sample_post 2 0 5 0),
      select_row best_store (sample_post 3 12 0 0)]"
  by (simp add: selected_def best_store_def sample_fields timeFilter_def)

lemma best_counts:
  "reaction_events best_store i = 0" "reply_events best_store i = 0"
  by (simp_all add: reaction_events_def reply_events_def best_store_def sample_fields)

lemma best_rowid_order: "rowid_order best_store"
  by (simp add: best_store_def rowid_order_store_of sample_fields)

text \<open>
  Claim C6. The single ORDER BY term of \<open>best\<close> is
  likes + reposts * 2 + reaction_count * 1.5 + reply_count * 0.5 over the events of the
  post, descending: the rows handed to the callback are a result of the query, and in
  every result a row with the larger score stands before the other. Two rows with the
  same score tie, and on a posts table in rowid order they come out in identifier order,
  the smaller identifier first.
\<close>

theorem best_quality_order:
  "quality (select_row d p) =
     of_int (p_likes p) + of_int (p_reposts p) * 2
       + of_int (reaction_events d (p_id p)) * (15 / 10)
       + of_int (reply_events d (p_id p)) * (5 / 10) \<and>
   order ''best'' now ms a = [Some (quality a)] \<and>
   baseQuery ''best'' now ms d (run_baseQuery ''best'' now ms d) \<and>
   (baseQuery ''best'' now ms d out \<and> a \<in> set out \<and> b \<in> set out \<and> quality b < quality a
      \<longrightarrow> ranks_before out a b) \<and>
   (rowid_order d \<and> a \<in> set (run_baseQuery ''best'' now ms d) \<and>
    b \<in> set (run_baseQuery ''best'' now ms d) \<and>
    quality a = quality b \<and> p_id (row_post a) < p_id (row_post b)
      \<longrightarrow> ranks_before (run_baseQuery ''best'' now ms d) a b)"
proof (intro conjI impI)
  show "quality (select_row d p) =
     of_int (p_likes p) + of_int (p_reposts p) * 2
       + of_int (reaction_events d (p_id p)) * (15 / 10)
       + of_int (reply_events d (p_id p)) * (5 / 10)"
    by (simp add: quality_def select_row_counts)
  show o: "order ''best'' now ms a = [Some (quality a)]"
    by (simp add: order_def)
  show "baseQuery ''best'' now ms d (run_baseQuery ''best'' now ms d)"
    by (rule run_baseQuery_result)
  show "ranks_before out a b"
    if "baseQuery ''best'' now ms d out \<and> a \<in> set out \<and> b \<in> set out \<and> quality b < quality a"
  proof -
    have "order ''best'' now ms b < order ''best'' now ms a"
      using that by (simp add: order_def)
    with that show ?thesis using result_ranks_before by blast
  qed
  show "ranks_before (run_baseQuery ''best'' now ms d) a b"
    if h: "rowid_order d \<and> a \<in> set (run_baseQuery ''best'' now ms d) \<and>
      b \<in> set (run_baseQuery ''best'' now ms d) \<and>
      quality a = quality b \<and> p_id (row_post a) < p_id (row_post b)"
  proof -
    have "order ''best'' now ms a = order ''best'' now ms b"
      using h by (simp add: order_def)
    with h show ?thesis using run_baseQuery_ties_ascending by blast
  qed
qed

text \<open>The example of claim C6: ten likes score 10, five reposts score 10, the two rows tie
  and come out as post 1, post 2, behind post 3 with score 12.\<close>

theorem best_quality_order_witness:
  "quality (select_row best_store (sample_post 1 10 0 0)) = 10 \<and>
   quality (select_row best_store (sample_post 2 0 5 0)) = 10 \<and>
   quality (select_row best_store (sample_post 3 12 0 0)) = 12 \<and>
   p_id (row_post (select_row best_store (sample_post 1 10 0 0))) = 1 \<and>
   p_id (row_post (select_row best_store (sample_post 2 0 5 0))) = 2 \<and>
   run_baseQuery ''best'' 0 0 best_store =
     [select_row best_store (sample_post 3 12 0 0), select_row best_store (sample_post 1 10 0 0),
      select_row best_store (sample_post 2 0 5 0)] \<and>
   ranks_before (run_baseQuery ''best'' 0 0 best_store)
     (select_row best_store (sample_post 3 12 0 0)) (select_row best_store (sample_post 1 10 0 0)) \<and>
   ranks_before (run_baseQuery ''best'' 0 0 best_store)
     (select_row best_store (sample_post 1 10 0 0)) (select_row best_store (sample_post 2 0 5 0))"
proof -
  let ?A = "select_row best_store (sample_post 1 10 0 0)"
  let ?B = "select_row best_store (sample_post 2 0 5 0)"
  let ?C = "select_row best_store (sample_post 3 12 0 0)"
  let ?run = "run_baseQuery ''best'' 0 0 best_store"
  note tAB = best_quality_order [of best_store "sample_post 1 10 0 0" 0 0 ?A ?run ?B]
  note tB = best_quality_order [of best_store "sample_post 2 0 5 0"]
  note tCA = best_quality_order [of best_store "sample_post 3 12 0 0" 0 0 ?C ?run ?A]
  have qA: "quality ?A = 10"
    using tAB by (simp add: sample_fields best_counts)
  have qB: "quality ?B = 10"
    using tB by (simp add: sample_fields best_counts)
  have qC: "quality ?C = 12"
    using tCA by (simp add: sample_fields best_counts)
  have ids: "p_id (row_post ?A) = 1" "p_id (row_post ?B) = 2"
    by (simp_all add: select_row_counts sample_fields)
  have r: "?run = [?C, ?A, ?B]"
    by (simp add: run_baseQuery_def best_selected order_def qA qB qC)
  have mem: "?A \<in> set ?run" "?B \<in> set ?run" "?C \<in> set ?run"
    by (simp_all add: r)
  have lt: "quality ?A < quality ?C" by (simp add: qA qC)
  have eq: "quality ?A = quality ?B \<and> p_id (row_post ?A) < p_id (row_post ?B)"
    by (simp add: qA qB ids)
  have q: "baseQuery ''best'' 0 0 best_store ?run" using tAB by blast
  have b1: "ranks_before ?run ?C ?A"
    using tCA q mem lt by blast
  have b2: "ranks_before ?run ?A ?B"
    using tAB best_rowid_order mem eq by blast
  show ?thesis
    apply (intro conjI)
    apply (rule qA)
    apply (rule qB)
    apply (rule qC)
    apply (rule ids(1))
    apply (rule ids(2))
    apply (rule r)
    apply (rule b1)
    apply (rule b2)
    done
qed

section \<open>The per-type breakdown\<close>

lemma flat_add_group:
  "flat (add_group g m) k = (if k = fst g then Some (snd g) else flat m k)"
  by (cases g; cases k) (auto simp: flat_def add_group_def Let_def split: option.splits if_splits)

lemma flat_fold_add_group:
  "distinct (map fst gs) \<Longrightarrow>
   flat (fold add_group gs m) k = (case map_of gs k of Some c \<Rightarrow> Some c | None \<Rightarrow> flat m k)"
proof (induction gs arbitrary: m)
  case Nil
  then show ?case by simp
next
  case (Cons g gs)
  then have "map_of gs (fst g) = None"
    by (simp add: map_of_eq_None_iff)
  with Cons show ?case
    by (cases g) (auto simp: flat_add_group split: option.splits)
qed

lemma reactions_lookup:
  assumes "pid \<in> set ids"
  shows "(case getReactionsForPosts d ids pid of None \<Rightarrow> Map.empty | Some tm \<Rightarrow> tm) t =
     (if typed_reaction_events d pid t = 0 then None else Some (typed_reaction_events d pid t))"
proof -
  let ?ks = "map (\<lambda>x. (rx_post_id x, rx_type x))
               (filter (\<lambda>x. rx_post_id x \<in> set ids) (reactions d))"
  have ne: "length ids \<noteq> 0" using assms by auto
  have "filter (\<lambda>x. (rx_post_id x, rx_type x) = (pid, t))
          (filter (\<lambda>x. rx_post_id x \<in> set ids) (reactions d)) =
        filter (\<lambda>x. rx_post_id x = pid \<and> rx_type x = t) (reactions d)"
    unfolding filter_filter using assms by (intro filter_cong) auto
  then have c: "int (count_list ?ks (pid, t)) = typed_reaction_events d pid t"
    by (simp add: count_list_map_filter typed_reaction_events_def)
  have "(case getReactionsForPosts d ids pid of None \<Rightarrow> Map.empty | Some tm \<Rightarrow> tm) t =
        flat (getReactionsForPosts d ids) (pid, t)"
    by (simp add: flat_def split: option.splits)
  also have "\<dots> = (case map_of (reaction_groups d ids) (pid, t) of
                      Some c \<Rightarrow> Some c | None \<Rightarrow> flat Map.empty (pid, t))"
    using ne by (simp add: getReactionsForPosts_def flat_fold_add_group reaction_groups_def
        Let_def comp_def)
  also have "\<dots> = (if (pid, t) \<in> set ?ks then Some (int (count_list ?ks (pid, t))) else None)"
    by (simp add: reaction_groups_def Let_def map_of_counts flat_def)
  also have "\<dots> = (if typed_reaction_events d pid t = 0 then None
                    else Some (typed_reaction_events d pid t))"
    using c count_list_0_iff [of ?ks "(pid, t)"] by auto
  finally show ?thesis .
qed

section \<open>The metrics of a response\<close>

lemma typed_le_all: "typed_reaction_events d pid t \<le> reaction_events d pid"
proof -
  have "filter (\<lambda>x. rx_post_id x = pid \<and> rx_type x = t) (reactions d) =
        filter (\<lambda>x. rx_type x = t) (filter (\<lambda>x. rx_post_id x = pid) (reactions d))"
    by (simp add: conj_commute)
  then have "length (filter (\<lambda>x. rx_post_id x = pid \<and> rx_type x = t) (reactions d))
      \<le> length (filter (\<lambda>x. rx_post_id x = pid) (reactions d))"
    using length_filter_le [of "\<lambda>x. rx_type x = t" "filter (\<lambda>x. rx_post_id x = pid) (reactions d)"]
    by simp
  then show ?thesis
    by (simp add: typed_reaction_events_def reaction_events_def)
qed

lemma typed_nonneg: "0 \<le> typed_reaction_events d pid t"
  by (simp add: typed_reaction_events_def)

lemma respond_member:
  assumes "(r, m) \<in> set (respond d out)"
  shows "r \<in> set out"
    and "m = (case getReactionsForPosts d (map (\<lambda>r. p_id (row_post r)) out) (p_id (row_post r))
              of None \<Rightarrow> Map.empty | Some tm \<Rightarrow> tm)"
  using assms by (auto simp: respond_def Let_def)

lemma metrics_counts:
  "typed_reaction_events metrics_store 1 ''love'' = 3"
  "typed_reaction_events metrics_store 1 ''angry'' = 2"
  "typed_reaction_events metrics_store 1 ''haha'' = 0"
  "typed_reaction_events metrics_store 1 ''sad'' = 0"
  "reaction_events metrics_store 1 = 5"
  "reaction_events metrics_store 2 = 0"
  "reply_events metrics_store i = 0"
  by (simp_all add: typed_reaction_events_def reaction_events_def reply_events_def
      metrics_store_def sample_fields)

lemma metrics_selected:
  "selected ''new'' now metrics_store =
     [select_row metrics_store (sample_post 1 0 0 0), select_row metrics_store (sample_post 2 0 0 0)]"
  by (simp add: selected_def metrics_store_def sample_fields timeFilter_def)

text \<open>
  Claim C7. The response lists the rows of the query result in their order, each with
  its per-type breakdown. For every entry, the post is a post of the store, and the six
  counts \<open>reaction_count\<close>, \<open>reply_count\<close>, \<open>love_count\<close>, \<open>happy_count\<close> (the haha
  count), \<open>angry_count\<close>, \<open>sad_count\<close> are the numbers of the post's reaction and reply
  events in the store; the breakdown maps each type that occurs among the post's
  reactions to its number of events and no other type. A post with no reactions and no
  replies has all six counts zero and the empty breakdown.
\<close>

theorem metrics_recomputed_from_events:
  "map fst (respond d out) = out \<and>
   (baseQuery st now ms d out \<and> (r, m) \<in> set (respond d out) \<longrightarrow>
      row_post r \<in> set (posts d) \<and>
      reaction_count r = reaction_events d (p_id (row_post r)) \<and>
      reply_count r = reply_events d (p_id (row_post r)) \<and>
      love_count r = typed_reaction_events d (p_id (row_post r)) ''love'' \<and>
      happy_count r = typed_reaction_events d (p_id (row_post r)) ''haha'' \<and>
      angry_count r = typed_reaction_events d (p_id (row_post r)) ''angry'' \<and>
      sad_count r = typed_reaction_events d (p_id (row_post r)) ''sad'' \<and>
      m = (\<lambda>t. if typed_reaction_events d (p_id (row_post r)) t = 0 then None
                else Some (typed_reaction_events d (p_id (row_post r)) t)) \<and>
      (reaction_events d (p_id (row_post r)) = 0 \<and> reply_events d (p_id (row_post r)) = 0 \<longrightarrow>
         reaction_count r = 0 \<and> reply_count r = 0 \<and> love_count r = 0 \<and> happy_count r = 0 \<and>
         angry_count r = 0 \<and> sad_count r = 0 \<and> m = Map.empty))"
proof (intro conjI impI)
  show "map fst (respond d out) = out"
    by (simp add: respond_def Let_def comp_def)
next
  assume h: "baseQuery st now ms d out \<and> (r, m) \<in> set (respond d out)"
  then have rin: "r \<in> set out" using respond_member(1) by blast
  have "set out = set (selected st now d)"
    using h by (metis baseQuery_def set_mset_mset)
  with rin obtain p where p: "p \<in> set (posts d)" "r = select_row d p"
    by (auto simp: selected_def)
  have rp: "row_post r = p" by (simp add: p select_row_counts)
  show "row_post r \<in> set (posts d)" using p rp by simp
  show rc: "reaction_count r = reaction_events d (p_id (row_post r))"
    by (simp add: p select_row_counts)
  show pc: "reply_count r = reply_events d (p_id (row_post r))"
    by (simp add: p select_row_counts)
  show lc: "love_count r = typed_reaction_events d (p_id (row_post r)) ''love''"
    by (simp add: p select_row_counts)
  show hc: "happy_count r = typed_reaction_events d (p_id (row_post r)) ''haha''"
    by (simp add: p select_row_counts)
  show ac: "angry_count r = typed_reaction_events d (p_id (row_post r)) ''angry''"
    by (simp add: p select_row_counts)
  show sc: "sad_count r = typed_reaction_events d (p_id (row_post r)) ''sad''"
    by (simp add: p select_row_counts)
  have "p_id (row_post r) \<in> set (map (\<lambda>r. p_id (row_post r)) out)"
    using rin by auto
  then show m: "m = (\<lambda>t. if typed_reaction_events d (p_id (row_post r)) t = 0 then None
                else Some (typed_reaction_events d (p_id (row_post r)) t))"
    using respond_member(2) [of r m d out] h reactions_lookup by (intro ext) simp
  assume z: "reaction_events d (p_id (row_post r)) = 0 \<and> reply_events d (p_id (row_post r)) = 0"
  have tz: "typed_reaction_events d (p_id (row_post r)) t = 0" for t
    using typed_le_all [of d "p_id (row_post r)" t] typed_nonneg [of d "p_id (row_post r)" t] z
    by simp
  show "reaction_count r = 0" using rc z by simp
  show "reply_count r = 0" using pc z by simp
  show "love_count r = 0" using lc tz by simp
  show "happy_count r = 0" using hc tz by simp
  show "angry_count r = 0" using ac tz by simp
  show "sad_count r = 0" using sc tz by simp
  show "m = Map.empty" using m tz by simp
qed


text \<open>The example of claim C7: three love and two angry reactions give love_count 3,
  angry_count 2 and reaction_count 5; the post without events has zeros and the empty
  breakdown.\<close>

theorem metrics_recomputed_from_events_witness:
  "baseQuery ''new'' 0 0 metrics_store
     [select_row metrics_store (sample_post 1 0 0 0), select_row metrics_store (sample_post 2 0 0 0)] \<and>
   map fst (respond metrics_store
     [select_row metrics_store (sample_post 1 0 0 0), select_row metrics_store (sample_post 2 0 0 0)]) =
     [select_row metrics_store (sample_post 1 0 0 0), select_row metrics_store (sample_post 2 0 0 0)] \<and>
   love_count (select_row metrics_store (sample_post 1 0 0 0)) = 3 \<and>
   angry_count (select_row metrics_store (sample_post 1 0 0 0)) = 2 \<and>
   reaction_count (select_row metrics_store (sample_post 1 0 0 0)) = 5 \<and>
   snd (hd (respond metrics_store
     [select_row metrics_store (sample_post 1 0 0 0), select_row metrics_store (sample_post 2 0 0 0)]))
     ''love'' = Some 3 \<and>
   snd (hd (respond metrics_store
     [select_row metrics_store (sample_post 1 0 0 0), select_row metrics_store (sample_post 2 0 0 0)]))
     ''angry'' = Some 2 \<and>
   snd (hd (respond metrics_store
     [select_row metrics_store (sample_post 1 0 0 0), select_row metrics_store (sample_post 2 0 0 0)]))
     ''sad'' = None \<and>
   reaction_count (select_row metrics_store (sample_post 2 0 0 0)) = 0 \<and>
   reply_count (select_row metrics_store (sample_post 2 0 0 0)) = 0 \<and>
   love_count (select_row metrics_store (sample_post 2 0 0 0)) = 0 \<and>
   happy_count (select_row metrics_store (sample_post 2 0 0 0)) = 0 \<and>
   angry_count (select_row metrics_store (sample_post 2 0 0 0)) = 0 \<and>
   sad_count (select_row metrics_store (sample_post 2 0 0 0)) = 0 \<and>
   snd (last (respond metrics_store
     [select_row metrics_store (sample_post 1 0 0 0), select_row metrics_store (sample_post 2 0 0 0)]))
     = Map.empty"
proof -
  let ?X = "select_row metrics_store (sample_post 1 0 0 0)"
  let ?Y = "select_row metrics_store (sample_post 2 0 0 0)"
  let ?resp = "respond metrics_store [?X, ?Y]"
  have q: "baseQuery ''new'' 0 0 metrics_store [?X, ?Y]"
    by (simp add: baseQuery_def metrics_selected may_precede_def order_def select_row_counts
        sample_fields)
  have mx: "(?X, snd (hd ?resp)) \<in> set ?resp" and my: "(?Y, snd (last ?resp)) \<in> set ?resp"
    by (simp_all add: respond_def Let_def)
  have idx: "p_id (row_post ?X) = 1" and idy: "p_id (row_post ?Y) = 2"
    by (simp_all add: select_row_counts sample_fields)
  note tx = metrics_recomputed_from_events [of metrics_store "[?X, ?Y]" "''new''" 0 0 ?X "snd (hd ?resp)"]
  note ty = metrics_recomputed_from_events [of metrics_store "[?X, ?Y]" "''new''" 0 0 ?Y "snd (last ?resp)"]
  have fx: "love_count ?X = 3" "angry_count ?X = 2" "reaction_count ?X = 5"
    "snd (hd ?resp) ''love'' = Some 3" "snd (hd ?resp) ''angry'' = Some 2"
    "snd (hd ?resp) ''sad'' = None"
    using tx q mx by (simp_all add: idx metrics_counts)
  have zy: "reaction_events metrics_store (p_id (row_post ?Y)) = 0 \<and>
            reply_events metrics_store (p_id (row_post ?Y)) = 0"
    by (simp add: idy metrics_counts)
  have fy: "reaction_count ?Y = 0 \<and> reply_count ?Y = 0 \<and> love_count ?Y = 0 \<and> happy_count ?Y = 0 \<and>
         angry_count ?Y = 0 \<and> sad_count ?Y = 0 \<and> snd (last ?resp) = Map.empty"
    using ty q my zy by blast
  have "map fst ?resp = [?X, ?Y]" using tx by blast
  with q fx fy show ?thesis by blast
qed

section \<open>Writes that name a post\<close>

text \<open>
  Claim C8, evaluated on the code. On the freshly opened store no post exists. Reacting
  to post 999 answers with the reaction counts and stores a reactions row with post_id
  999; replying to post 999 answers with the new reply and stores a replies row with
  post_id 999. In both cases the posts table is still empty: the reference dangles and
  no failure is reported. The sibling routes \<open>like\<close> and \<open>repost\<close> answer 404 for the
  same identifier.
\<close>

theorem dangling_reference_stored:
  "posts open_db = [] \<and> \<not> foreign_keys open_db \<and>
   fst (react 999 (Some ''love'') 0 open_db) = Inr (Map.empty(''love'' \<mapsto> 1)) \<and>
   map rx_post_id (reactions (snd (react 999 (Some ''love'') 0 open_db))) = [999] \<and>
   posts (snd (react 999 (Some ''love'') 0 open_db)) = [] \<and>
   fst (reply_to 999 (Some ''hello'') None 0 open_db) =
     Inr \<lparr>y_id = 1, y_post_id = 999, y_text = ''hello'', y_image = None\<rparr> \<and>
   map rp_post_id (replies (snd (reply_to 999 (Some ''hello'') None 0 open_db))) = [999] \<and>
   posts (snd (reply_to 999 (Some ''hello'') None 0 open_db)) = [] \<and>
   like 999 open_db = (Inl (NotFound ''Not found''), open_db) \<and>
   repost 999 open_db = (Inl (NotFound ''Not found''), open_db)"
  by (simp add: react_def reply_to_def like_def repost_def open_db_def validTypes_def
      fk_violation_def next_rowid_def reaction_counts_def trim_def is_space_def imagePath_def
      Let_def)

section \<open>Deleting a post that does not exist\<close>

lemma filter_length_zero:
  "(filter (\<lambda>x. f x \<noteq> k) xs = xs) = (length (filter (\<lambda>x. f x = k) xs) = 0)"
  by (induction xs) (auto simp: filter_id_conv dest: filter_eq_ConsD)

text \<open>
  Claim C9. Deleting an identifier that names no post answers 404 \<open>Post not found\<close>, and
  the store it leaves is the store after the two earlier DELETE statements: the replies
  rows and the reactions rows with that post_id are gone, the posts are as before. The
  store is unchanged exactly when there was no such replies or reactions row.
\<close>

theorem delete_missing_post_removes_rows:
  "pid \<notin> set (map p_id (posts d)) \<longrightarrow>
     delete_post (Some pid) d =
       (Inl (NotFound ''Post not found''), delete_reactions pid (delete_replies pid d)) \<and>
     posts (snd (delete_post (Some pid) d)) = posts d \<and>
     replies (snd (delete_post (Some pid) d)) = filter (\<lambda>r. rp_post_id r \<noteq> pid) (replies d) \<and>
     reactions (snd (delete_post (Some pid) d)) =
       filter (\<lambda>x. rx_post_id x \<noteq> pid) (reactions d) \<and>
     (snd (delete_post (Some pid) d) = d) =
       (reply_events d pid = 0 \<and> reaction_events d pid = 0)"
proof
  assume h: "pid \<notin> set (map p_id (posts d))"
  then have np: "filter (\<lambda>p. p_id p = pid) (posts d) = []"
    by (auto simp: filter_empty_conv)
  from h have kp: "filter (\<lambda>p. p_id p \<noteq> pid) (posts d) = posts d"
    by (auto simp: filter_id_conv)
  have e: "delete_post (Some pid) d =
       (Inl (NotFound ''Post not found''), delete_reactions pid (delete_replies pid d))"
    by (simp add: delete_post_def delete_post_row_def delete_reactions_def delete_replies_def
        Let_def np kp)
  have u: "(delete_reactions pid (delete_replies pid d) = d) =
       (reply_events d pid = 0 \<and> reaction_events d pid = 0)"
  proof -
    have "(delete_reactions pid (delete_replies pid d) = d) =
          (filter (\<lambda>r. rp_post_id r \<noteq> pid) (replies d) = replies d \<and>
           filter (\<lambda>x. rx_post_id x \<noteq> pid) (reactions d) = reactions d)"
      by (cases d) (auto simp: delete_reactions_def delete_replies_def)
    then show ?thesis
      by (simp add: filter_length_zero reply_events_def reaction_events_def)
  qed
  show "delete_post (Some pid) d =
       (Inl (NotFound ''Post not found''), delete_reactions pid (delete_replies pid d)) \<and>
     posts (snd (delete_post (Some pid) d)) = posts d \<and>
     replies (snd (delete_post (Some pid) d)) = filter (\<lambda>r. rp_post_id r \<noteq> pid) (replies d) \<and>
     reactions (snd (delete_post (Some pid) d)) =
       filter (\<lambda>x. rx_post_id x \<noteq> pid) (reactions d) \<and>
     (snd (delete_post (Some pid) d) = d) =
       (reply_events d pid = 0 \<and> reaction_events d pid = 0)"
    using u by (simp add: e) (simp add: delete_reactions_def delete_replies_def)
qed

lemma dangling_store_value:
  "dangling_store =
     \<lparr>posts = [],
      reactions = [\<lparr>rx_id = 1, rx_post_id = 999, rx_type = ''love'', rx_timestamp = 0\<rparr>],
      replies = [\<lparr>rp_id = 1, rp_post_id = 999, rp_text = ''hello'', rp_image = None,
                  rp_timestamp = 0\<rparr>],
      posts_seq = 0, reactions_seq = 1, replies_seq = 1, foreign_keys = False\<rparr>"
  by (simp add: dangling_store_def react_def reply_to_def open_db_def validTypes_def
      fk_violation_def next_rowid_def trim_def is_space_def imagePath_def Let_def)

text \<open>The example for claim C9: after a reaction and a reply to the missing post 999,
  deleting post 999 answers 404 and has removed both rows.\<close>

theorem delete_missing_post_removes_rows_witness:
  "999 \<notin> set (map p_id (posts dangling_store)) \<and>
   map rp_post_id (replies dangling_store) = [999] \<and>
   map rx_post_id (reactions dangling_store) = [999] \<and>
   fst (delete_post (Some 999) dangling_store) = Inl (NotFound ''Post not found'') \<and>
   replies (snd (delete_post (Some 999) dangling_store)) = [] \<and>
   reactions (snd (delete_post (Some 999) dangling_store)) = [] \<and>
   snd (delete_post (Some 999) dangling_store) \<noteq> dangling_store"
proof -
  have n: "999 \<notin> set (map p_id (posts dangling_store))"
    by (simp add: dangling_store_value)
  have r: "map rp_post_id (replies dangling_store) = [999]"
    "map rx_post_id (reactions dangling_store) = [999]"
    by (simp_all add: dangling_store_value)
  have ev: "reply_events dangling_store 999 = 1" "reaction_events dangling_store 999 = 1"
    by (simp_all add: dangling_store_value reply_events_def reaction_events_def)
  note t = delete_missing_post_removes_rows [of 999 dangling_store]
  have a: "fst (delete_post (Some 999) dangling_store) = Inl (NotFound ''Post not found'')"
    using t n by simp
  have b1: "replies (snd (delete_post (Some 999) dangling_store)) =
        filter (\<lambda>r. rp_post_id r \<noteq> 999) (replies dangling_store)"
    and b2: "reactions (snd (delete_post (Some 999) dangling_store)) =
        filter (\<lambda>x. rx_post_id x \<noteq> 999) (reactions dangling_store)"
    using t n by blast+
  have f: "filter (\<lambda>r. rp_post_id r \<noteq> 999) (replies dangling_store) = []"
    "filter (\<lambda>x. rx_post_id x \<noteq> 999) (reactions dangling_store) = []"
    by (simp_all add: dangling_store_value)
  have b: "replies (snd (delete_post (Some 999) dangling_store)) = []"
    "reactions (snd (delete_post (Some 999) dangling_store)) = []"
    using b1 b2 f by simp_all
  have "(snd (delete_post (Some 999) dangling_store) = dangling_store) =
        (reply_events dangling_store 999 = 0 \<and> reaction_events dangling_store 999 = 0)"
    using t n by blast
  then have c: "snd (delete_post (Some 999) dangling_store) \<noteq> dangling_store"
    using ev by simp
  from n r a b c show ?thesis by blast
qed

section \<open>Creating a post with an unknown mood\<close>

text \<open>
  Claim C10. When the text is acceptable (not blank after trimming, at most 280
  characters), a mood that is absent or outside \<open>none\<close>, \<open>love\<close>, \<open>happy\<close>, \<open>sad\<close>,
  \<open>angry\<close>, \<open>anxious\<close>, \<open>excited\<close> does not reject the request: the route answers with
  the created post, and both the answer and the stored row carry the mood \<open>none\<close>.
\<close>

theorem invalid_mood_coerced_to_none:
  "trim t \<noteq> [] \<and> length (trim t) \<le> 280 \<and>
   (mood = None \<or>
    (\<exists>m. mood = Some m \<and>
         m \<notin> {''none'', ''love'', ''happy'', ''sad'', ''angry'', ''anxious'', ''excited''}))
   \<longrightarrow>
   fst (create_post (Some t) mood file now d) =
     Inr \<lparr>j_id = next_rowid (posts_seq d) (map p_id (posts d)), j_text = trim t,
          j_mood = ''none'', j_image = imagePath file,
          j_likes = 0, j_reposts = 0, j_reactions = Map.empty, j_reply_count = 0\<rparr> \<and>
   posts (snd (create_post (Some t) mood file now d)) =
     posts d @
       [\<lparr>p_id = next_rowid (posts_seq d) (map p_id (posts d)), p_text = trim t,
         p_mood = ''none'', p_likes = 0, p_reposts = 0,
         p_image = imagePath file, p_timestamp = now\<rparr>]"
proof
  assume h: "trim t \<noteq> [] \<and> length (trim t) \<le> 280 \<and>
   (mood = None \<or>
    (\<exists>m. mood = Some m \<and>
         m \<notin> {''none'', ''love'', ''happy'', ''sad'', ''angry'', ''anxious'', ''excited''}))"
  then have m: "safeMood mood = ''none''"
    by (auto simp: safeMood_def validMoods_def)
  from h have ne: "t \<noteq> []"
    by (auto simp: trim_def)
  show "fst (create_post (Some t) mood file now d) =
     Inr \<lparr>j_id = next_rowid (posts_seq d) (map p_id (posts d)), j_text = trim t,
          j_mood = ''none'', j_image = imagePath file,
          j_likes = 0, j_reposts = 0, j_reactions = Map.empty, j_reply_count = 0\<rparr> \<and>
   posts (snd (create_post (Some t) mood file now d)) =
     posts d @
       [\<lparr>p_id = next_rowid (posts_seq d) (map p_id (posts d)), p_text = trim t,
         p_mood = ''none'', p_likes = 0, p_reposts = 0,
         p_image = imagePath file, p_timestamp = now\<rparr>]"
    using h ne by (simp add: create_post_def MAX_LENGTH_def Let_def m)
qed

text \<open>The example for claim C10: the moods \<open>furious\<close> and absent are stored as \<open>none\<close>,
  while \<open>happy\<close> is kept.\<close>

lemma trim_hi: "trim ''hi'' = ''hi''"
  by (simp add: trim_def is_space_def)

theorem invalid_mood_coerced_to_none_witness:
  "fst (create_post (Some ''hi'') (Some ''furious'') None 5 open_db) =
     Inr \<lparr>j_id = 1, j_text = ''hi'', j_mood = ''none'', j_image = None,
          j_likes = 0, j_reposts = 0, j_reactions = Map.empty, j_reply_count = 0\<rparr> \<and>
   posts (snd (create_post (Some ''hi'') (Some ''furious'') None 5 open_db)) =
     [\<lparr>p_id = 1, p_text = ''hi'', p_mood = ''none'', p_likes = 0, p_reposts = 0,
       p_image = None, p_timestamp = 5\<rparr>] \<and>
   fst (create_post (Some ''hi'') None None 5 open_db) =
     Inr \<lparr>j_id = 1, j_text = ''hi'', j_mood = ''none'', j_image = None,
          j_likes = 0, j_reposts = 0, j_reactions = Map.empty, j_reply_count = 0\<rparr> \<and>
   p_mood (hd (posts (snd (create_post (Some ''hi'') (Some ''happy'') None 5 open_db)))) = ''happy''"
proof -
  have n: "next_rowid (posts_seq open_db) [] = 1" "posts open_db = []" "imagePath None = None"
    by (simp_all add: next_rowid_def open_db_def imagePath_def)
  have a: "fst (create_post (Some ''hi'') (Some ''furious'') None 5 open_db) =
     Inr \<lparr>j_id = 1, j_text = ''hi'', j_mood = ''none'', j_image = None,
          j_likes = 0, j_reposts = 0, j_reactions = Map.empty, j_reply_count = 0\<rparr> \<and>
   posts (snd (create_post (Some ''hi'') (Some ''furious'') None 5 open_db)) =
     [\<lparr>p_id = 1, p_text = ''hi'', p_mood = ''none'', p_likes = 0, p_reposts = 0,
       p_image = None, p_timestamp = 5\<rparr>]"
    using invalid_mood_coerced_to_none [of "''hi''" "Some ''furious''" None 5 open_db]
    by (simp add: trim_hi n)
  have b: "fst (create_post (Some ''hi'') None None 5 open_db) =
     Inr \<lparr>j_id = 1, j_text = ''hi'', j_mood = ''none'', j_image = None,
          j_likes = 0, j_reposts = 0, j_reactions = Map.empty, j_reply_count = 0\<rparr>"
    using invalid_mood_coerced_to_none [of "''hi''" None None 5 open_db]
    by (simp add: trim_hi n)
  have c: "p_mood (hd (posts (snd (create_post (Some ''hi'') (Some ''happy'') None 5 open_db)))) = ''happy''"
    by (simp add: create_post_def trim_hi MAX_LENGTH_def Let_def safeMood_def validMoods_def n)
  from a b c show ?thesis by blast
qed

end
